theory Spec2Isabelle
  imports Complex_Main "HOL-Library.Sublist"
begin

section \<open>Exceptions and Python string helpers\<close>

text \<open>
  Texts are lists of characters; a character is read as a code point in the range 0..255.
  An exception is its class together with its message (\<open>str(e)\<close>). Every exception class
  that is not one of the repository's own (\<open>src/error_handling.py\<close>) is \<open>OtherError\<close>.
\<close>

datatype exn_class =
  ChatbotError | DocumentIngestionError | EmbeddingError | LLMError | OtherError

datatype exn = Exn exn_class string

fun str_exn :: "exn \<Rightarrow> string" where
  "str_exn (Exn k msg) = msg"

fun exn_class_of :: "exn \<Rightarrow> exn_class" where
  "exn_class_of (Exn k msg) = k"

definition digit_char :: "nat \<Rightarrow> char" where
  "digit_char d = ''0123456789'' ! d"

text \<open>\<open>str(i)\<close> for a non-negative integer: its decimal digits.\<close>

function str_nat :: "nat \<Rightarrow> string" where
  "str_nat n = (if n < 10 then [digit_char n] else str_nat (n div 10) @ [digit_char (n mod 10)])"
  by pat_completeness auto
termination
  by (relation "measure id") auto

text \<open>The character classes of \<open>re\<close> on \<open>str\<close> patterns, for code points below 256.\<close>

definition is_space :: "char \<Rightarrow> bool" where
  "is_space c = (let n = (of_char c :: nat) in
     (9 \<le> n \<and> n \<le> 13) \<or> (28 \<le> n \<and> n \<le> 32) \<or> n = 133 \<or> n = 160)"

definition is_word :: "char \<Rightarrow> bool" where
  "is_word c = (let n = (of_char c :: nat) in
     (48 \<le> n \<and> n \<le> 57) \<or> (65 \<le> n \<and> n \<le> 90) \<or> n = 95 \<or> (97 \<le> n \<and> n \<le> 122)
     \<or> n = 170 \<or> n = 178 \<or> n = 179 \<or> n = 181 \<or> n = 185 \<or> n = 186
     \<or> (188 \<le> n \<and> n \<le> 190) \<or> (192 \<le> n \<and> n \<le> 214) \<or> (216 \<le> n \<and> n \<le> 246)
     \<or> 248 \<le> n)"

text \<open>\<open>s.strip()\<close>: leading and trailing whitespace removed.\<close>

definition py_strip :: "string \<Rightarrow> string" where
  "py_strip s = rev (dropWhile is_space (rev (dropWhile is_space s)))"

text \<open>\<open>xs[start:]\<close> with Python's treatment of a negative or too large start.\<close>

definition slice_from :: "int \<Rightarrow> 'a list \<Rightarrow> 'a list" where
  "slice_from start xs =
     (if start < 0 then drop (nat (int (length xs) + start)) xs else drop (nat start) xs)"

text \<open>\<open>sep.join(parts)\<close>.\<close>

fun py_join :: "string \<Rightarrow> string list \<Rightarrow> string" where
  "py_join sep [] = []"
| "py_join sep [p] = p"
| "py_join sep (p # q # ps) = p @ sep @ py_join sep (q # ps)"

section \<open>Text cleaning and chunking (\<open>src/preprocess.py\<close>)\<close>

text \<open>\<open>re.sub(r'\s+', ' ', text)\<close>: every maximal run of whitespace becomes one space.\<close>

function sub_whitespace :: "string \<Rightarrow> string" where
  "sub_whitespace [] = []"
| "sub_whitespace (c # cs) =
     (if is_space c then CHR '' '' # sub_whitespace (dropWhile is_space cs)
      else c # sub_whitespace cs)"
  by pat_completeness auto
termination
  by (relation "measure length") (auto simp: length_dropWhile_le less_Suc_eq_le)

text \<open>The characters that \<open>[^\w\s\.,!?;:\-\'"()]\<close> does not match.\<close>

definition allowed_char :: "char \<Rightarrow> bool" where
  "allowed_char c = (is_word c \<or> is_space c \<or>
     c \<in> set [CHR ''.'', CHR '','', CHR ''!'', CHR ''?'', CHR '';'', CHR '':'', CHR ''-'',
                CHR 0x27, CHR 0x22, CHR ''('', CHR '')''])"

definition clean_text :: "string \<Rightarrow> string" where
  "clean_text text0 =
     (let text1 = sub_whitespace text0;
          text2 = filter allowed_char text1
      in py_strip text2)"

record document =
  file_path :: string
  file_name :: string
  content :: string
  file_size :: nat
  extension :: string

record chunk =
  chunk_id :: string
  source_document :: string
  source_path :: string
  chunk_index :: nat
  content :: string
  chunk_size :: nat

text \<open>The loop \<open>for i, chunk in enumerate(chunks)\<close> of \<open>chunk_document\<close>, from index \<open>i\<close> on.\<close>

fun chunk_loop :: "document \<Rightarrow> nat \<Rightarrow> string list \<Rightarrow> chunk list" where
  "chunk_loop d i [] = []"
| "chunk_loop d i (c # cs) =
     \<lparr>chunk_id = file_name d @ ''_chunk_'' @ str_nat i,
      source_document = file_name d,
      source_path = file_path d,
      chunk_index = i,
      content = c,
      chunk_size = length c\<rparr> # chunk_loop d (Suc i) cs"

text \<open>
  \<open>chunk_document\<close>. The splitter \<open>self.text_splitter.split_text\<close> is the third-party
  \<open>RecursiveCharacterTextSplitter\<close>; it is a parameter here, and an exception it raises is
  caught by the \<open>except\<close> branch, which returns the empty list.
\<close>

definition chunk_document :: "(string \<Rightarrow> exn + string list) \<Rightarrow> document \<Rightarrow> chunk list" where
  "chunk_document split_text d =
     (let cleaned_text = clean_text (document.content d)
      in case split_text cleaned_text of
           Inl e \<Rightarrow> []
         | Inr chunks \<Rightarrow> chunk_loop d 0 chunks)"

definition process_documents :: "(string \<Rightarrow> exn + string list) \<Rightarrow> document list \<Rightarrow> chunk list" where
  "process_documents split_text documents = concat (map (chunk_document split_text) documents)"

text \<open>
  Modelled from the spec: the splitter itself (\<open>RecursiveCharacterTextSplitter.split_text\<close>
  of langchain, configured in \<open>TextPreprocessor.__init__\<close> with \<open>chunk_size\<close>,
  \<open>chunk_overlap\<close> and the separators) is not part of the repository. The spec says of it:
  an empty document gives the empty chunk sequence, and a document no longer than
  \<open>chunk_size\<close> gives a single chunk whose content is the text. What it does with a longer
  text is left to the parameter \<open>split_long\<close>.
\<close>

definition spec_split_text :: "(string \<Rightarrow> string list) \<Rightarrow> nat \<Rightarrow> string \<Rightarrow> exn + string list" where
  "spec_split_text split_long size_limit t =
     (if t = [] then Inr []
      else if length t \<le> size_limit then Inr [t]
      else Inr (split_long t))"

section \<open>Conversation memory (\<open>src/memory.py\<close>)\<close>

record turn =
  timestamp :: string
  user :: string
  assistant :: string

type_synonym conversations = "string \<rightharpoonup> turn list"

text \<open>\<open>add_conversation_turn\<close>; \<open>now\<close> is \<open>datetime.now().isoformat()\<close>.\<close>

definition add_conversation_turn ::
  "conversations \<Rightarrow> string \<Rightarrow> string \<Rightarrow> string \<Rightarrow> string \<Rightarrow> conversations" where
  "add_conversation_turn convs now conversation_id user_message assistant_message =
     (let convs1 = (if conversation_id \<notin> dom convs then convs(conversation_id \<mapsto> []) else convs);
          t = \<lparr>timestamp = now, user = user_message, assistant = assistant_message\<rparr>
      in case convs1 conversation_id of
           Some history \<Rightarrow> convs1(conversation_id \<mapsto> history @ [t])
         | None \<Rightarrow> convs1)"

text \<open>
  \<open>get_conversation_history\<close>. \<open>max_turns\<close> is \<open>None\<close> or an integer; \<open>if max_turns:\<close>
  holds for an integer other than 0.
\<close>

definition get_conversation_history :: "conversations \<Rightarrow> string \<Rightarrow> int option \<Rightarrow> turn list" where
  "get_conversation_history convs conversation_id max_turns =
     (case convs conversation_id of
        None \<Rightarrow> []
      | Some history \<Rightarrow>
          (case max_turns of
             None \<Rightarrow> history
           | Some n \<Rightarrow> if n \<noteq> 0 then slice_from (- n) history else history))"

text \<open>The most recent \<open>n\<close> entries of a log, in the order of the log.\<close>

definition most_recent :: "nat \<Rightarrow> 'a list \<Rightarrow> 'a list" where
  "most_recent n xs = drop (length xs - n) xs"

text \<open>A conversation store with five turns under the identifier \<open>c1\<close>.\<close>

definition example_turn :: "string \<Rightarrow> turn" where
  "example_turn s = \<lparr>timestamp = ''t'' @ s, user = ''q'' @ s, assistant = ''a'' @ s\<rparr>"

definition five_turns :: "turn list" where
  "five_turns = map example_turn [''1'', ''2'', ''3'', ''4'', ''5'']"

definition example_convs :: conversations where
  "example_convs = add_conversation_turn (add_conversation_turn (add_conversation_turn
     (add_conversation_turn (add_conversation_turn Map.empty ''t1'' ''c1'' ''q1'' ''a1'')
       ''t2'' ''c1'' ''q2'' ''a2'') ''t3'' ''c1'' ''q3'' ''a3'') ''t4'' ''c1'' ''q4'' ''a4'')
       ''t5'' ''c1'' ''q5'' ''a5''"

section \<open>Prompt assembly and generation (\<open>src/llm.py\<close>)\<close>

text \<open>
  A retrieved passage as \<open>search_similar\<close> builds it. Its metadata is the dictionary the
  index stored with the chunk; a value of it is a string or a number.
\<close>

datatype meta_value = MStr string | MInt nat

fun str_meta :: "meta_value \<Rightarrow> string" where
  "str_meta (MStr s) = s"
| "str_meta (MInt n) = str_nat n"

record passage =
  passage_id :: string
  content :: string
  metadata :: "string \<rightharpoonup> meta_value"
  distance :: "real option"

text \<open>\<open>doc['metadata'].get('source_document', 'Unknown')\<close>.\<close>

definition get_source_document :: "passage \<Rightarrow> meta_value" where
  "get_source_document doc =
     (case metadata doc ''source_document'' of None \<Rightarrow> MStr ''Unknown'' | Some v \<Rightarrow> v)"

record message =
  role :: string
  content :: string

text \<open>The loop of \<open>_build_context\<close> over \<open>enumerate(context_documents, 1)\<close>, from index \<open>i\<close> on.\<close>

fun context_parts :: "nat \<Rightarrow> passage list \<Rightarrow> string list" where
  "context_parts i [] = []"
| "context_parts i (doc # docs) =
     (''Source '' @ str_nat i @ '' ('' @ str_meta (get_source_document doc) @ ''):\<newline>''
        @ passage.content doc) # context_parts (Suc i) docs"

definition build_context :: "passage list \<Rightarrow> string" where
  "build_context context_documents =
     (if context_documents = [] then ''No relevant context found.''
      else py_join ''\<newline>\<newline>'' (context_parts 1 context_documents))"

definition system_prompt :: string where
  "system_prompt =
     ''You are a helpful AI assistant that answers questions based on the provided context. \<newline>''
   @ ''        Follow these guidelines:\<newline>''
   @ ''        1. Answer questions based primarily on the provided context\<newline>''
   @ ''        2. If the context doesn't contain enough information, say so clearly\<newline>''
   @ ''        3. Be concise but informative\<newline>''
   @ ''        4. Cite sources when possible\<newline>''
   @ ''        5. If asked about something not in the context, politely explain the limitation''"

text \<open>
  The loop \<open>for turn in conversation_history[-5:]\<close>, appending two messages for each turn
  to the list built so far.
\<close>

fun append_turns :: "message list \<Rightarrow> turn list \<Rightarrow> message list" where
  "append_turns messages [] = messages"
| "append_turns messages (t # ts) =
     append_turns ((messages @ [\<lparr>role = ''user'', content = user t\<rparr>])
                     @ [\<lparr>role = ''assistant'', content = assistant t\<rparr>]) ts"

text \<open>
  \<open>if conversation_history:\<close> holds for a list that is neither \<open>None\<close> nor empty.
\<close>

definition add_history :: "message list \<Rightarrow> turn list option \<Rightarrow> message list" where
  "add_history messages conversation_history =
     (case conversation_history of
        None \<Rightarrow> messages
      | Some h \<Rightarrow> if h \<noteq> [] then append_turns messages (slice_from (- 5) h) else messages)"

definition build_messages :: "string \<Rightarrow> string \<Rightarrow> turn list option \<Rightarrow> message list" where
  "build_messages query context conversation_history =
     (let messages = [\<lparr>role = ''system'', content = system_prompt\<rparr>];
          messages1 = add_history messages conversation_history;
          user_message = ''Context:\<newline>'' @ context @ ''\<newline>\<newline>Question: '' @ query
      in messages1 @ [\<lparr>role = ''user'', content = user_message\<rparr>])"

text \<open>
  The configuration of \<open>LLMWrapper.__init__\<close>, and a request to
  \<open>client.chat.completions.create\<close>: its model, its messages and whether \<open>extra_body\<close> enables
  reasoning (temperature and token limit are the same in every call).
\<close>

record llm_wrapper =
  model :: string
  fallback_model :: string
  enable_reasoning :: bool

record chat_request =
  model :: string
  messages :: "message list"
  reasoning :: bool

text \<open>
  The chat-completion backend is a parameter: from its state and a request it gives the
  \<open>content\<close> of the first choice (which may be \<open>None\<close>) or raises, and a new state.
\<close>

type_synonym 's chat_client = "'s \<Rightarrow> chat_request \<Rightarrow> (exn + string option) \<times> 's"

text \<open>\<open>response.choices[0].message.content.strip()\<close>.\<close>

definition content_strip :: "string option \<Rightarrow> exn + string" where
  "content_strip c =
     (case c of
        None \<Rightarrow> Inl (Exn OtherError ([CHR 0x27] @ ''NoneType'' @ [CHR 0x27]
                  @ '' object has no attribute '' @ [CHR 0x27] @ ''strip'' @ [CHR 0x27]))
      | Some s \<Rightarrow> Inr (py_strip s))"

text \<open>One call of the backend followed by the extraction of the answer.\<close>

definition chat_attempt :: "'s chat_client \<Rightarrow> 's \<Rightarrow> chat_request \<Rightarrow> (exn + string) \<times> 's" where
  "chat_attempt client s req =
     (case client s req of
        (Inl e, s1) \<Rightarrow> (Inl e, s1)
      | (Inr c, s1) \<Rightarrow> (content_strip c, s1))"

text \<open>
  \<open>generate_response\<close>. The result is the answer or the exception raised, the state of the
  backend afterwards, and the requests sent to the backend, in order.
\<close>

function generate_response ::
  "llm_wrapper \<Rightarrow> 's chat_client \<Rightarrow> 's \<Rightarrow> string \<Rightarrow> passage list \<Rightarrow> turn list option \<Rightarrow> bool
     \<Rightarrow> (exn + string) \<times> 's \<times> chat_request list" where
  "generate_response llm client s query context_documents conversation_history use_fallback =
     (let context = build_context context_documents;
          msgs = build_messages query context conversation_history;
          m = (if use_fallback then fallback_model llm else llm_wrapper.model llm);
          enable = (enable_reasoning llm \<and> \<not> use_fallback);
          req = \<lparr>model = m, messages = msgs, reasoning = enable\<rparr>
      in case chat_attempt client s req of
           (Inr answer, s1) \<Rightarrow> (Inr answer, s1, [req])
         | (Inl e, s1) \<Rightarrow>
             if \<not> use_fallback then
               (case generate_response llm client s1 query context_documents
                       conversation_history True of
                  (r, s2, reqs) \<Rightarrow> (r, s2, req # reqs))
             else (Inl (Exn LLMError (''Failed to generate response: '' @ str_exn e)), s1, [req]))"
  by pat_completeness auto
termination
  by (relation "measure (\<lambda>(llm, client, s, q, docs, h, fb). if fb then 0 else 1)") auto

definition general_system_prompt :: string where
  "general_system_prompt =
     ''You are a helpful, friendly AI assistant. Answer questions clearly and concisely.''"

definition general_messages :: "string \<Rightarrow> turn list option \<Rightarrow> message list" where
  "general_messages query conversation_history =
     (let messages = [\<lparr>role = ''system'', content = general_system_prompt\<rparr>];
          messages1 = add_history messages conversation_history
      in messages1 @ [\<lparr>role = ''user'', content = query\<rparr>])"

text \<open>
  \<open>generate_general_response\<close>: the inner \<open>try\<close> calls the main model; its handler calls
  the fallback model when \<open>self.fallback_model\<close> is truthy (a non-empty string) and re-raises
  otherwise; the outer handler turns every exception into an \<open>LLMError\<close>.
\<close>

definition generate_general_response ::
  "llm_wrapper \<Rightarrow> 's chat_client \<Rightarrow> 's \<Rightarrow> string \<Rightarrow> turn list option
     \<Rightarrow> (exn + string) \<times> 's \<times> chat_request list" where
  "generate_general_response llm client s query conversation_history =
     (let msgs = general_messages query conversation_history;
          req1 = \<lparr>model = llm_wrapper.model llm, messages = msgs, reasoning = enable_reasoning llm\<rparr>
      in case chat_attempt client s req1 of
           (Inr answer, s1) \<Rightarrow> (Inr answer, s1, [req1])
         | (Inl e, s1) \<Rightarrow>
             if fallback_model llm \<noteq> [] then
               (let req2 = \<lparr>model = fallback_model llm, messages = msgs, reasoning = False\<rparr>
                in case chat_attempt client s1 req2 of
                     (Inr answer, s2) \<Rightarrow> (Inr answer, s2, [req1, req2])
                   | (Inl e2, s2) \<Rightarrow>
                       (Inl (Exn LLMError (''Failed to generate response: '' @ str_exn e2)), s2,
                        [req1, req2]))
             else (Inl (Exn LLMError (''Failed to generate response: '' @ str_exn e)), s1, [req1]))"

section \<open>Embedding index (\<open>src/embeddings.py\<close>)\<close>

type_synonym vector = "real list"

text \<open>What \<open>add_documents\<close> hands to the collection for one chunk, next to the chunk's id.\<close>

record index_entry =
  document_text :: string
  embedding :: vector
  metadata :: "string \<rightharpoonup> meta_value"

text \<open>
  \<open>create_embedding\<close>; the embedding model \<open>self.embedding_model.encode\<close> is the parameter
  \<open>encode\<close>.
\<close>

definition create_embedding :: "(string \<Rightarrow> exn + vector) \<Rightarrow> string \<Rightarrow> exn + vector" where
  "create_embedding encode t =
     (case encode t of
        Inl e \<Rightarrow> Inl (Exn EmbeddingError (''Failed to create embedding: '' @ str_exn e))
      | Inr v \<Rightarrow> Inr v)"

text \<open>The loop \<open>for chunk in chunks\<close> of \<open>add_documents\<close>; the first failing embedding raises.\<close>

fun embed_chunks :: "(string \<Rightarrow> exn + vector) \<Rightarrow> chunk list \<Rightarrow> exn + (string \<times> index_entry) list" where
  "embed_chunks encode [] = Inr []"
| "embed_chunks encode (c # cs) =
     (case create_embedding encode (chunk.content c) of
        Inl e \<Rightarrow> Inl e
      | Inr v \<Rightarrow>
          (case embed_chunks encode cs of
             Inl e \<Rightarrow> Inl e
           | Inr rows \<Rightarrow>
               Inr ((chunk_id c,
                     \<lparr>document_text = chunk.content c,
                      embedding = v,
                      metadata = [''source_document'' \<mapsto> MStr (source_document c),
                                  ''source_path'' \<mapsto> MStr (source_path c),
                                  ''chunk_index'' \<mapsto> MInt (chunk_index c),
                                  ''chunk_size'' \<mapsto> MInt (chunk_size c)]\<rparr>) # rows)))"

text \<open>
  \<open>add_documents\<close>; the write \<open>self.collection.add\<close> is the parameter \<open>collection_add\<close>,
  which gives the new collection or raises.
\<close>

definition add_documents ::
  "(string \<Rightarrow> exn + vector) \<Rightarrow> ('c \<Rightarrow> (string \<times> index_entry) list \<Rightarrow> exn + 'c) \<Rightarrow> 'c \<Rightarrow> chunk list
     \<Rightarrow> (exn + unit) \<times> 'c" where
  "add_documents encode collection_add coll chunks =
     (case embed_chunks encode chunks of
        Inl e \<Rightarrow> (Inl (Exn EmbeddingError (''Failed to add documents: '' @ str_exn e)), coll)
      | Inr rows \<Rightarrow>
          (case collection_add coll rows of
             Inl e \<Rightarrow> (Inl (Exn EmbeddingError (''Failed to add documents: '' @ str_exn e)), coll)
           | Inr coll1 \<Rightarrow> (Inr (), coll1)))"

text \<open>
  \<open>search_similar\<close>; \<open>collection_query\<close> stands for \<open>self.collection.query\<close> together with
  the formatting of its rows into passages.
\<close>

definition search_similar ::
  "(string \<Rightarrow> exn + vector) \<Rightarrow> ('c \<Rightarrow> vector \<Rightarrow> int \<Rightarrow> exn + passage list) \<Rightarrow> 'c \<Rightarrow> string \<Rightarrow> int
     \<Rightarrow> exn + passage list" where
  "search_similar encode collection_query coll query top_k =
     (case create_embedding encode query of
        Inl e \<Rightarrow> Inl (Exn EmbeddingError (''Failed to search documents: '' @ str_exn e))
      | Inr query_embedding \<Rightarrow>
          (case collection_query coll query_embedding top_k of
             Inl e \<Rightarrow> Inl (Exn EmbeddingError (''Failed to search documents: '' @ str_exn e))
           | Inr similar_docs \<Rightarrow> Inr similar_docs))"

text \<open>
  Modelled from the spec: the vector index behind \<open>self.collection\<close> (a chromadb
  collection) is not part of the repository. The spec says of its write: it replaces any
  existing entry sharing the same \<open>chunk_id\<close>. The index is a map from chunk ids to
  entries, and the write stores the rows in order.
\<close>

type_synonym index = "string \<rightharpoonup> index_entry"

definition spec_upsert :: "index \<Rightarrow> (string \<times> index_entry) list \<Rightarrow> exn + index" where
  "spec_upsert coll rows = Inr (foldl (\<lambda>m (k, e). m(k \<mapsto> e)) coll rows)"

section \<open>Document ingestion (\<open>src/ingest.py\<close>)\<close>

text \<open>
  The file system and \<open>pathlib\<close>: whether a path exists, \<open>str(path)\<close>, \<open>path.name\<close>, the text
  of a text file, the page texts of a PDF, and \<open>path.stat().st_size\<close>.
\<close>

record file_system =
  path_exists :: "string \<Rightarrow> bool"
  path_str :: "string \<Rightarrow> string"
  path_name :: "string \<Rightarrow> string"
  read_text :: "string \<Rightarrow> exn + string"
  pdf_pages :: "string \<Rightarrow> exn + string list"
  st_size :: "string \<Rightarrow> exn + nat"

text \<open>\<open>name.rfind(c)\<close>: the last position of \<open>c\<close>, if any.\<close>

fun rfind :: "char \<Rightarrow> string \<Rightarrow> nat option" where
  "rfind c [] = None"
| "rfind c (x # xs) =
     (case rfind c xs of
        Some i \<Rightarrow> Some (Suc i)
      | None \<Rightarrow> if x = c then Some 0 else None)"

text \<open>\<open>path.suffix\<close>, computed from \<open>path.name\<close> as \<open>pathlib\<close> does.\<close>

definition path_suffix :: "string \<Rightarrow> string" where
  "path_suffix name =
     (case rfind (CHR ''.'') name of
        None \<Rightarrow> []
      | Some i \<Rightarrow> if 0 < i \<and> i < length name - 1 then drop i name else [])"

definition py_lower_char :: "char \<Rightarrow> char" where
  "py_lower_char c = (let n = (of_char c :: nat) in
     if (65 \<le> n \<and> n \<le> 90) \<or> (192 \<le> n \<and> n \<le> 214) \<or> (216 \<le> n \<and> n \<le> 222)
     then char_of (n + 32) else c)"

definition py_lower :: "string \<Rightarrow> string" where
  "py_lower s = map py_lower_char s"

definition supported_extensions :: "string set" where
  "supported_extensions = {''.pdf'', ''.txt''}"

definition extract_pdf_text :: "file_system \<Rightarrow> string \<Rightarrow> exn + string" where
  "extract_pdf_text fs p =
     (case pdf_pages fs p of
        Inl e \<Rightarrow> Inl e
      | Inr pages \<Rightarrow> Inr (py_strip (concat (map (\<lambda>page. page @ ''\<newline>'') pages))))"

definition extract_txt_text :: "file_system \<Rightarrow> string \<Rightarrow> exn + string" where
  "extract_txt_text fs p =
     (case read_text fs p of Inl e \<Rightarrow> Inl e | Inr t \<Rightarrow> Inr (py_strip t))"

text \<open>The body of the \<open>try\<close> block of \<open>ingest_document\<close>.\<close>

definition ingest_document_body :: "file_system \<Rightarrow> string \<Rightarrow> exn + document" where
  "ingest_document_body fs p =
     (let name = path_name fs p; sfx = path_suffix name in
      if \<not> path_exists fs p then Inl (Exn DocumentIngestionError (''File not found: '' @ p))
      else if py_lower sfx \<notin> supported_extensions then
        Inl (Exn DocumentIngestionError (''Unsupported file type: '' @ sfx))
      else
        (case (if py_lower sfx = ''.pdf'' then extract_pdf_text fs p else extract_txt_text fs p) of
           Inl e \<Rightarrow> Inl e
         | Inr text0 \<Rightarrow>
             (case st_size fs p of
                Inl e \<Rightarrow> Inl e
              | Inr sz \<Rightarrow>
                  Inr \<lparr>file_path = path_str fs p, file_name = name, content = text0,
                       file_size = sz, extension = py_lower sfx\<rparr>)))"

definition ingest_document :: "file_system \<Rightarrow> string \<Rightarrow> exn + document" where
  "ingest_document fs p =
     (case ingest_document_body fs p of
        Inl e \<Rightarrow> Inl (Exn DocumentIngestionError (''Failed to ingest document: '' @ str_exn e))
      | Inr d \<Rightarrow> Inr d)"

section \<open>The pipeline (\<open>src/rag_pipeline.py\<close>)\<close>

text \<open>The external collaborators of the pipeline, and its own state.\<close>

record ('c, 's) services =
  fs :: file_system
  split_text :: "string \<Rightarrow> exn + string list"
  encode :: "string \<Rightarrow> exn + vector"
  collection_add :: "'c \<Rightarrow> (string \<times> index_entry) list \<Rightarrow> exn + 'c"
  collection_query :: "'c \<Rightarrow> vector \<Rightarrow> int \<Rightarrow> exn + passage list"
  chat_create :: "'s chat_client"

record ('c, 's) rag_pipeline =
  llm :: llm_wrapper
  collection :: 'c
  memory :: conversations
  chat_state :: 's

text \<open>The loop \<open>for file_path in file_paths\<close> of \<open>ingest_documents\<close>.\<close>

fun ingest_all :: "file_system \<Rightarrow> string list \<Rightarrow> exn + document list" where
  "ingest_all fsys [] = Inr []"
| "ingest_all fsys (p # ps) =
     (case ingest_document fsys p of
        Inl e \<Rightarrow> Inl e
      | Inr d \<Rightarrow> (case ingest_all fsys ps of Inl e \<Rightarrow> Inl e | Inr ds \<Rightarrow> Inr (d # ds)))"

definition ingest_documents ::
  "('c, 's) services \<Rightarrow> ('c, 's) rag_pipeline \<Rightarrow> string list \<Rightarrow> (exn + unit) \<times> ('c, 's) rag_pipeline" where
  "ingest_documents sv p file_paths =
     (case ingest_all (fs sv) file_paths of
        Inl e \<Rightarrow> (Inl (Exn ChatbotError (''Document ingestion failed: '' @ str_exn e)), p)
      | Inr documents \<Rightarrow>
          (let chunks = process_documents (split_text sv) documents in
           case add_documents (encode sv) (collection_add sv) (collection p) chunks of
             (Inl e, coll1) \<Rightarrow>
               (Inl (Exn ChatbotError (''Document ingestion failed: '' @ str_exn e)),
                p\<lparr>collection := coll1\<rparr>)
           | (Inr u, coll1) \<Rightarrow> (Inr (), p\<lparr>collection := coll1\<rparr>)))"

record source_entry =
  source :: meta_value
  content_preview :: string

record response =
  answer :: string
  sources :: "source_entry list"
  conversation_id :: "string option"

definition make_source :: "passage \<Rightarrow> source_entry" where
  "make_source doc =
     \<lparr>source = get_source_document doc,
      content_preview =
        (if length (passage.content doc) > 200 then take 200 (passage.content doc) @ ''...''
         else passage.content doc)\<rparr>"

text \<open>\<open>if conversation_id:\<close> holds for an identifier that is neither \<open>None\<close> nor empty.\<close>

definition truthy_id :: "string option \<Rightarrow> string option" where
  "truthy_id cid = (case cid of None \<Rightarrow> None | Some c \<Rightarrow> if c = [] then None else Some c)"

text \<open>Step 1 of \<open>ask_question\<close>: an exception of the search leaves \<open>relevant_docs = []\<close>.\<close>

definition retrieve :: "('c, 's) services \<Rightarrow> 'c \<Rightarrow> string \<Rightarrow> int \<Rightarrow> passage list" where
  "retrieve sv coll question top_k =
     (case search_similar (encode sv) (collection_query sv) coll question top_k of
        Inl e \<Rightarrow> []
      | Inr docs \<Rightarrow> docs)"

text \<open>\<open>ask_question\<close>; \<open>now\<close> is the time stamp the new turn gets.\<close>

definition ask_question ::
  "('c, 's) services \<Rightarrow> ('c, 's) rag_pipeline \<Rightarrow> string \<Rightarrow> string \<Rightarrow> string option \<Rightarrow> int
     \<Rightarrow> (exn + response) \<times> ('c, 's) rag_pipeline" where
  "ask_question sv p now question cid top_k =
     (let relevant_docs = retrieve sv (collection p) question top_k;
          conversation_history =
            (case truthy_id cid of
               None \<Rightarrow> None
             | Some c \<Rightarrow> Some (get_conversation_history (memory p) c None));
          generated =
            (if relevant_docs \<noteq> [] then
               generate_response (llm p) (chat_create sv) (chat_state p) question relevant_docs
                 conversation_history False
             else
               generate_general_response (llm p) (chat_create sv) (chat_state p) question
                 conversation_history)
      in case generated of
           (Inl e, s1, reqs) \<Rightarrow>
             (Inl (Exn ChatbotError (''Question answering failed: '' @ str_exn e)),
              p\<lparr>chat_state := s1\<rparr>)
         | (Inr a, s1, reqs) \<Rightarrow>
             (let memory1 =
                    (case truthy_id cid of
                       None \<Rightarrow> memory p
                     | Some c \<Rightarrow> add_conversation_turn (memory p) now c question a)
              in (Inr \<lparr>answer = a, sources = map make_source relevant_docs, conversation_id = cid\<rparr>,
                  p\<lparr>memory := memory1, chat_state := s1\<rparr>)))"

section \<open>Notions used to state the properties\<close>

text \<open>How the spec renders passage number \<open>i\<close> in the context block.\<close>

definition render_source :: "nat \<Rightarrow> passage \<Rightarrow> string" where
  "render_source i doc = ''Source '' @ str_nat i @ '' ('' @ str_meta (get_source_document doc)
      @ ''):\<newline>'' @ passage.content doc"

text \<open>The two messages a history turn expands into: the user's, then the assistant's.\<close>

definition turn_messages :: "turn \<Rightarrow> message list" where
  "turn_messages t =
     [\<lparr>role = ''user'', content = user t\<rparr>, \<lparr>role = ''assistant'', content = assistant t\<rparr>]"

text \<open>
  The request of the retrieval mode and of the general chat mode, to the main model or
  (\<open>use_fallback\<close>) to the fallback model.
\<close>

definition rag_request ::
  "llm_wrapper \<Rightarrow> string \<Rightarrow> passage list \<Rightarrow> turn list option \<Rightarrow> bool \<Rightarrow> chat_request" where
  "rag_request w q docs h use_fallback =
     \<lparr>model = (if use_fallback then fallback_model w else llm_wrapper.model w),
      messages = build_messages q (build_context docs) h,
      reasoning = (enable_reasoning w \<and> \<not> use_fallback)\<rparr>"

definition general_request :: "llm_wrapper \<Rightarrow> string \<Rightarrow> turn list option \<Rightarrow> bool \<Rightarrow> chat_request" where
  "general_request w q h use_fallback =
     \<lparr>model = (if use_fallback then fallback_model w else llm_wrapper.model w),
      messages = general_messages q h,
      reasoning = (enable_reasoning w \<and> \<not> use_fallback)\<rparr>"

text \<open>The history \<open>ask_question\<close> reads in its step 2.\<close>

definition history_of :: "conversations \<Rightarrow> string option \<Rightarrow> turn list option" where
  "history_of convs cid =
     (case truthy_id cid of
        None \<Rightarrow> None
      | Some c \<Rightarrow> Some (get_conversation_history convs c None))"

text \<open>The memory after step 4 of \<open>ask_question\<close> with answer \<open>a\<close>.\<close>

definition memory_after :: "conversations \<Rightarrow> string \<Rightarrow> string option \<Rightarrow> string \<Rightarrow> string \<Rightarrow> conversations" where
  "memory_after convs now cid question a =
     (case truthy_id cid of
        None \<Rightarrow> convs
      | Some c \<Rightarrow> add_conversation_turn convs now c question a)"

text \<open>A path that \<open>ingest_document\<close> rejects before it reads anything.\<close>

definition rejected :: "file_system \<Rightarrow> string \<Rightarrow> bool" where
  "rejected fsys p =
     (\<not> path_exists fsys p \<or> py_lower (path_suffix (path_name fsys p)) \<notin> supported_extensions)"

section \<open>Stub collaborators\<close>

text \<open>
  A chat backend whose main model \<open>main\<close> always fails and whose every other model answers
  \<open>OK\<close>; a file system with the files \<open>a.txt\<close> and \<open>b.md\<close>; an embedding model that always
  succeeds; an index that holds what was written to it and finds nothing.
\<close>

definition stub_chat :: "unit chat_client" where
  "stub_chat s req =
     (if chat_request.model req = ''main'' then (Inl (Exn OtherError ''primary down''), s)
      else (Inr (Some ''OK''), s))"

definition stub_fs :: file_system where
  "stub_fs =
     \<lparr>path_exists = (\<lambda>p. p = ''a.txt'' \<or> p = ''b.md''),
      path_str = (\<lambda>p. p),
      path_name = (\<lambda>p. p),
      read_text = (\<lambda>p. Inr ''A.  B. C.''),
      pdf_pages = (\<lambda>p. Inr []),
      st_size = (\<lambda>p. Inr 9)\<rparr>"

definition stub_services :: "(index, unit) services" where
  "stub_services =
     \<lparr>fs = stub_fs,
      split_text = spec_split_text (\<lambda>t. [t]) 1000,
      encode = (\<lambda>t. Inr [0]),
      collection_add = spec_upsert,
      collection_query = (\<lambda>coll v k. Inr []),
      chat_create = stub_chat\<rparr>"

definition stub_llm :: llm_wrapper where
  "stub_llm = \<lparr>llm_wrapper.model = ''main'', fallback_model = ''backup'', enable_reasoning = False\<rparr>"

definition no_fallback_llm :: llm_wrapper where
  "no_fallback_llm = \<lparr>llm_wrapper.model = ''main'', fallback_model = [], enable_reasoning = False\<rparr>"

definition stub_pipeline :: "(index, unit) rag_pipeline" where
  "stub_pipeline =
     \<lparr>llm = stub_llm,
      collection = Map.empty,
      memory = Map.empty,
      chat_state = ()\<rparr>"

text \<open>The same services with an embedding model that cannot be used.\<close>

definition broken_services :: "(index, unit) services" where
  "broken_services = stub_services\<lparr>encode := (\<lambda>t. Inl (Exn OtherError ''model not loaded''))\<rparr>"

definition example_passage :: "string \<Rightarrow> string \<Rightarrow> passage" where
  "example_passage name body =
     \<lparr>passage_id = name @ ''_chunk_0'', content = body,
      metadata = [''source_document'' \<mapsto> MStr name], distance = None\<rparr>"

text \<open>A passage of 201 characters, and services whose search finds it.\<close>

definition long_passage :: passage where
  "long_passage = example_passage ''big.txt'' (replicate 201 (CHR ''x''))"

definition long_services :: "(index, unit) services" where
  "long_services = stub_services\<lparr>collection_query := (\<lambda>coll v k. Inr [long_passage])\<rparr>"

text \<open>
  The entry that ingesting \<open>a.txt\<close> writes to the index, and the stub pipeline after that
  ingestion.
\<close>

definition stub_entry :: index_entry where
  "stub_entry =
     \<lparr>document_text = ''A. B. C.'', embedding = [0],
      metadata = [''source_document'' \<mapsto> MStr ''a.txt'', ''source_path'' \<mapsto> MStr ''a.txt'',
                  ''chunk_index'' \<mapsto> MInt 0, ''chunk_size'' \<mapsto> MInt 8]\<rparr>"

definition ingested_once :: "(index, unit) rag_pipeline" where
  "ingested_once = stub_pipeline\<lparr>collection := [''a.txt_chunk_0'' \<mapsto> stub_entry]\<rparr>"

text \<open>
  A document whose text has no character that cleaning keeps, and the document that
  \<open>a.txt\<close> is ingested as.
\<close>

definition blank_document :: document where
  "blank_document =
     \<lparr>file_path = ''blank.txt'', file_name = ''blank.txt'', content = ''# *'', file_size = 3,
      extension = ''.txt''\<rparr>"

definition a_document :: document where
  "a_document =
     \<lparr>file_path = ''a.txt'', file_name = ''a.txt'', content = ''A.  B. C.'', file_size = 9,
      extension = ''.txt''\<rparr>"

declare generate_response.simps [simp del]

section \<open>Properties of the conversation memory\<close>

lemma example_convs_c1: "example_convs ''c1'' = Some five_turns"
  by (simp add: example_convs_def add_conversation_turn_def five_turns_def example_turn_def)

lemma slice_from_suffix: "suffix (slice_from k xs) xs"
  by (simp add: slice_from_def suffix_drop)

lemma slice_from_neg:
  assumes "0 < n"
  shows "slice_from (- n) xs = most_recent (nat n) xs"
proof -
  have "nat (int (length xs) + - n) = length xs - nat n"
    using assms by arith
  then show ?thesis
    using assms by (simp only: slice_from_def most_recent_def) simp
qed




text \<open>
  C10: for a conversation with at least one turn, \<open>max_turns = 0\<close> returns the full turn
  hist, which is not empty: the cap is applied only when \<open>max_turns\<close> is truthy.
\<close>

theorem history_max_turns_zero:
  assumes "convs cid = Some hist" and "hist \<noteq> []"
  shows "get_conversation_history convs cid (Some 0) = hist \<and>
         get_conversation_history convs cid (Some 0) \<noteq> []"
  using assms by (simp add: get_conversation_history_def)

theorem history_max_turns_zero_witness:
  "example_convs ''c1'' = Some five_turns \<and> five_turns \<noteq> [] \<and>
   get_conversation_history example_convs ''c1'' (Some 0) = five_turns"
proof -
  have nonempty: "five_turns \<noteq> []"
    by (simp add: five_turns_def)
  show ?thesis
    using history_max_turns_zero [of example_convs "''c1''" five_turns]
      example_convs_c1 nonempty
    by simp
qed

section \<open>Properties of the prompt\<close>

lemma context_parts_nth:
  "context_parts i docs = map (\<lambda>k. render_source (i + k) (docs ! k)) [0..<length docs]"
proof (induction docs arbitrary: i)
  case Nil
  show ?case by simp
next
  case (Cons doc docs)
  have "map (\<lambda>k. render_source (i + k) ((doc # docs) ! k)) [0..<length (doc # docs)]
      = render_source i doc # map (\<lambda>k. render_source (Suc i + k) (docs ! k)) [0..<length docs]"
    by (simp add: map_upt_Suc del: upt_Suc)
  with Cons.IH [of "Suc i"] show ?case
    by (simp add: render_source_def)
qed

lemma append_turns_concat:
  "append_turns msgs ts = msgs @ concat (map turn_messages ts)"
  by (induction ts arbitrary: msgs) (simp_all add: turn_messages_def)

lemma add_history_concat:
  "add_history msgs h =
     msgs @ concat (map turn_messages (most_recent 5 (case h of None \<Rightarrow> [] | Some ts \<Rightarrow> ts)))"
proof (cases h)
  case None
  then show ?thesis by (simp add: add_history_def most_recent_def)
next
  case (Some ts)
  have "slice_from (- 5) ts = most_recent (nat 5) ts"
    by (rule slice_from_neg) simp
  with Some show ?thesis
    by (simp add: add_history_def append_turns_concat most_recent_def)
qed

lemma generate_response_first_request:
  "\<exists>rest. snd (snd (generate_response w client s q docs h False)) =
     rag_request w q docs h False # rest"
  by (subst generate_response.simps)
    (auto simp: Let_def rag_request_def split: prod.splits sum.splits)

lemma build_context_nth:
  "build_context docs =
     (if docs = [] then ''No relevant context found.''
      else py_join ''\<newline>\<newline>'' (map (\<lambda>k. render_source (Suc k) (docs ! k)) [0..<length docs]))"
  by (simp add: build_context_def context_parts_nth)

lemma build_messages_shape:
  "build_messages question context hist =
     [\<lparr>role = ''system'', content = system_prompt\<rparr>]
     @ concat (map turn_messages (most_recent 5 (case hist of None \<Rightarrow> [] | Some ts \<Rightarrow> ts)))
     @ [\<lparr>role = ''user'', content = ''Context:\<newline>'' @ context @ ''\<newline>\<newline>Question: '' @ question\<rparr>]"
  by (simp add: build_messages_def add_history_concat)

text \<open>
  C2: the first request \<open>generate_response\<close> sends carries the messages
  \<open>build_messages question (build_context docs) hist\<close>, and these are exactly: the system
  message; then, for the most recent five turns of the history, oldest first, the user message
  followed by the assistant message of the turn; then one user message made of
  \<open>Context:\<close>, a line break, the context, a blank line, \<open>Question: \<close> and the question. The
  context is the literal \<open>No relevant context found.\<close> for no passages, and otherwise the
  passages rendered as \<open>Source i (source_document):\<close>, a line break and the content, numbered
  from 1 and joined by blank lines. A passage whose metadata has no \<open>source_document\<close> is
  rendered with \<open>Unknown\<close>.
\<close>

theorem rag_prompt_exact:
  "(\<exists>rest. snd (snd (generate_response w client s question docs hist False)) =
      \<lparr>model = llm_wrapper.model w, messages = build_messages question (build_context docs) hist,
       reasoning = enable_reasoning w\<rparr> # rest) \<and>
   build_messages question (build_context docs) hist =
     [\<lparr>role = ''system'', content = system_prompt\<rparr>]
     @ concat (map turn_messages (most_recent 5 (case hist of None \<Rightarrow> [] | Some ts \<Rightarrow> ts)))
     @ [\<lparr>role = ''user'',
         content = ''Context:\<newline>'' @ build_context docs @ ''\<newline>\<newline>Question: '' @ question\<rparr>] \<and>
   build_context docs =
     (if docs = [] then ''No relevant context found.''
      else py_join ''\<newline>\<newline>'' (map (\<lambda>k. render_source (Suc k) (docs ! k)) [0..<length docs]))"
  using generate_response_first_request [of w client s question docs hist]
    build_messages_shape [of question "build_context docs" hist] build_context_nth [of docs]
  by (simp add: rag_request_def)

theorem rag_prompt_exact_witness:
  "build_messages ''why?''
       (build_context [example_passage ''a.txt'' ''alpha'', example_passage ''b.txt'' ''beta''])
       (Some [example_turn ''1''])
     = [\<lparr>role = ''system'', content = system_prompt\<rparr>,
        \<lparr>role = ''user'', content = ''q1''\<rparr>,
        \<lparr>role = ''assistant'', content = ''a1''\<rparr>,
        \<lparr>role = ''user'', content =
           ''Context:\<newline>Source 1 (a.txt):\<newline>alpha\<newline>\<newline>Source 2 (b.txt):\<newline>beta\<newline>\<newline>Question: why?''\<rparr>]"
proof -
  let ?docs = "[example_passage ''a.txt'' ''alpha'', example_passage ''b.txt'' ''beta'']"
  note all = rag_prompt_exact [of stub_llm stub_chat "()" "''why?''" ?docs "Some [example_turn ''1'']"]
  have shape: "build_messages ''why?'' (build_context ?docs) (Some [example_turn ''1'']) =
     [\<lparr>role = ''system'', content = system_prompt\<rparr>]
     @ concat (map turn_messages (most_recent 5 [example_turn ''1'']))
     @ [\<lparr>role = ''user'',
         content = ''Context:\<newline>'' @ build_context ?docs @ ''\<newline>\<newline>Question: '' @ ''why?''\<rparr>]"
    using all [THEN conjunct2, THEN conjunct1] by (simp only: option.case)
  have ctx: "build_context ?docs =
       py_join ''\<newline>\<newline>'' (map (\<lambda>k. render_source (Suc k) (?docs ! k)) [0..<length ?docs])"
    using all [THEN conjunct2, THEN conjunct2] by simp
  have "build_context ?docs = ''Source 1 (a.txt):\<newline>alpha\<newline>\<newline>Source 2 (b.txt):\<newline>beta''"
    unfolding ctx
    by (simp add: render_source_def example_passage_def get_source_document_def digit_char_def upt_rec)
  with shape show ?thesis
    by (simp add: most_recent_def turn_messages_def example_turn_def)
qed

section \<open>Properties of generation and of the pipeline\<close>

lemma generate_response_fallback_eq:
  "generate_response w client s q docs h True =
     (case chat_attempt client s (rag_request w q docs h True) of
        (Inr a, s1) \<Rightarrow> (Inr a, s1, [rag_request w q docs h True])
      | (Inl e, s1) \<Rightarrow>
          (Inl (Exn LLMError (''Failed to generate response: '' @ str_exn e)), s1,
           [rag_request w q docs h True]))"
  by (subst generate_response.simps)
    (simp add: rag_request_def Let_def split: prod.splits sum.splits)

lemma generate_response_primary_eq:
  "generate_response w client s q docs h False =
     (case chat_attempt client s (rag_request w q docs h False) of
        (Inr a, s1) \<Rightarrow> (Inr a, s1, [rag_request w q docs h False])
      | (Inl e, s1) \<Rightarrow>
          (case generate_response w client s1 q docs h True of
             (r, s2, reqs) \<Rightarrow> (r, s2, rag_request w q docs h False # reqs)))"
  by (subst generate_response.simps)
    (simp add: rag_request_def Let_def split: prod.splits sum.splits)

lemma rag_fallback_once:
  assumes "chat_attempt client s (rag_request w q docs h False) = (Inl e, s1)"
  shows "generate_response w client s q docs h False =
     (case chat_attempt client s1 (rag_request w q docs h True) of
        (Inr a, s2) \<Rightarrow> (Inr a, s2, [rag_request w q docs h False, rag_request w q docs h True])
      | (Inl e2, s2) \<Rightarrow>
          (Inl (Exn LLMError (''Failed to generate response: '' @ str_exn e2)), s2,
           [rag_request w q docs h False, rag_request w q docs h True]))"
  using assms
  by (simp add: generate_response_primary_eq generate_response_fallback_eq
      split: prod.splits sum.splits)

lemma general_fallback_once:
  assumes "chat_attempt client s (general_request w q h False) = (Inl e, s1)"
    and "fallback_model w \<noteq> []"
  shows "generate_general_response w client s q h =
     (case chat_attempt client s1 (general_request w q h True) of
        (Inr a, s2) \<Rightarrow> (Inr a, s2, [general_request w q h False, general_request w q h True])
      | (Inl e2, s2) \<Rightarrow>
          (Inl (Exn LLMError (''Failed to generate response: '' @ str_exn e2)), s2,
           [general_request w q h False, general_request w q h True]))"
  using assms
  by (simp add: generate_general_response_def general_request_def Let_def
      split: prod.splits sum.splits)

lemma general_no_fallback:
  assumes "chat_attempt client s (general_request w q h False) = (Inl e, s1)"
    and "fallback_model w = []"
  shows "generate_general_response w client s q h =
     (Inl (Exn LLMError (''Failed to generate response: '' @ str_exn e)), s1,
      [general_request w q h False])"
  using assms
  by (simp add: generate_general_response_def general_request_def Let_def)

lemma retrieve_failure:
  "search_similar (encode sv) (collection_query sv) coll question top_k = Inl e
     \<Longrightarrow> retrieve sv coll question top_k = []"
  by (simp add: retrieve_def)

lemma ask_question_general:
  assumes "retrieve sv (collection p) question top_k = []"
  shows "ask_question sv p now question cid top_k =
     (case generate_general_response (llm p) (chat_create sv) (chat_state p) question
             (history_of (memory p) cid) of
        (Inl e1, s1, reqs) \<Rightarrow>
          (Inl (Exn ChatbotError (''Question answering failed: '' @ str_exn e1)),
           p\<lparr>chat_state := s1\<rparr>)
      | (Inr a, s1, reqs) \<Rightarrow>
          (Inr \<lparr>answer = a, sources = [], conversation_id = cid\<rparr>,
           p\<lparr>memory := memory_after (memory p) now cid question a, chat_state := s1\<rparr>))"
  using assms
  by (simp add: ask_question_def history_of_def memory_after_def Let_def
      split: prod.splits sum.splits)

lemma ask_question_rag:
  assumes "retrieve sv (collection p) question top_k = docs" and "docs \<noteq> []"
  shows "ask_question sv p now question cid top_k =
     (case generate_response (llm p) (chat_create sv) (chat_state p) question docs
             (history_of (memory p) cid) False of
        (Inl e1, s1, reqs) \<Rightarrow>
          (Inl (Exn ChatbotError (''Question answering failed: '' @ str_exn e1)),
           p\<lparr>chat_state := s1\<rparr>)
      | (Inr a, s1, reqs) \<Rightarrow>
          (Inr \<lparr>answer = a, sources = map make_source docs, conversation_id = cid\<rparr>,
           p\<lparr>memory := memory_after (memory p) now cid question a, chat_state := s1\<rparr>))"
  using assms
  by (simp add: ask_question_def history_of_def memory_after_def Let_def
      split: prod.splits sum.splits)

text \<open>
  C1: when the retrieval step raises (the index is empty or was never initialised, the
  embedding fails, the query fails), \<open>ask_question\<close> goes on with zero passages: the answer
  comes from the general chat mode and the response has no sources. It raises only if the
  generation itself raises.
\<close>

theorem ask_question_retrieval_failure:
  assumes "search_similar (encode sv) (collection_query sv) (collection p) question top_k = Inl e"
  shows "retrieve sv (collection p) question top_k = [] \<and>
     ask_question sv p now question cid top_k =
       (case generate_general_response (llm p) (chat_create sv) (chat_state p) question
               (history_of (memory p) cid) of
          (Inl e1, s1, reqs) \<Rightarrow>
            (Inl (Exn ChatbotError (''Question answering failed: '' @ str_exn e1)),
             p\<lparr>chat_state := s1\<rparr>)
        | (Inr a, s1, reqs) \<Rightarrow>
            (Inr \<lparr>answer = a, sources = [], conversation_id = cid\<rparr>,
             p\<lparr>memory := memory_after (memory p) now cid question a, chat_state := s1\<rparr>))"
  using retrieve_failure [OF assms] ask_question_general [of sv p question top_k now cid]
  by simp

lemma py_strip_OK: "py_strip ''OK'' = ''OK''"
  by (simp add: py_strip_def is_space_def)

theorem ask_question_retrieval_failure_witness:
  "search_similar (encode broken_services) (collection_query broken_services)
       (collection stub_pipeline) ''hi'' 5
     = Inl (Exn EmbeddingError ''Failed to search documents: Failed to create embedding: model not loaded'') \<and>
   ask_question broken_services stub_pipeline ''now'' ''hi'' None 5 =
     (Inr \<lparr>answer = ''OK'', sources = [], conversation_id = None\<rparr>, stub_pipeline)"
proof -
  have fails: "search_similar (encode broken_services) (collection_query broken_services)
       (collection stub_pipeline) ''hi'' 5
     = Inl (Exn EmbeddingError ''Failed to search documents: Failed to create embedding: model not loaded'')"
    by (simp add: search_similar_def create_embedding_def broken_services_def stub_services_def)
  have gen: "generate_general_response (llm stub_pipeline) (chat_create broken_services)
       (chat_state stub_pipeline) ''hi'' (history_of (memory stub_pipeline) None)
     = (Inr ''OK'', (), [general_request stub_llm ''hi'' None False, general_request stub_llm ''hi'' None True])"
    by (simp add: generate_general_response_def general_request_def chat_attempt_def stub_chat_def
        stub_pipeline_def stub_llm_def broken_services_def stub_services_def history_of_def
        truthy_id_def content_strip_def py_strip_OK Let_def)
  show ?thesis
    using ask_question_retrieval_failure [OF fails, of "''now''" None] fails gen
    by (simp add: memory_after_def truthy_id_def stub_pipeline_def)
qed


lemma chat_attempt_fail:
  "client s req = (Inl e, s1) \<Longrightarrow> chat_attempt client s req = (Inl e, s1)"
  by (simp add: chat_attempt_def)

lemma chat_attempt_OK:
  "client s req = (Inr (Some ''OK''), s1) \<Longrightarrow> chat_attempt client s req = (Inr ''OK'', s1)"
  by (simp add: chat_attempt_def content_strip_def py_strip_OK)

lemma rag_request_model [simp]:
  "chat_request.model (rag_request w q docs h False) = llm_wrapper.model w"
  "chat_request.model (rag_request w q docs h True) = fallback_model w"
  by (simp_all add: rag_request_def)

lemma general_request_model [simp]:
  "chat_request.model (general_request w q h False) = llm_wrapper.model w"
  "chat_request.model (general_request w q h True) = fallback_model w"
  by (simp_all add: general_request_def)

lemma ask_question_fallback_OK:
  assumes primary: "\<forall>s req. chat_request.model req = llm_wrapper.model (llm p)
            \<longrightarrow> (\<exists>e s1. chat_create sv s req = (Inl e, s1))"
    and fallback: "\<forall>s req. chat_request.model req = fallback_model (llm p)
            \<longrightarrow> (\<exists>s1. chat_create sv s req = (Inr (Some ''OK''), s1))"
    and configured: "fallback_model (llm p) \<noteq> []"
  shows "\<exists>p1. ask_question sv p now question cid top_k =
     (Inr \<lparr>answer = ''OK'', sources = map make_source (retrieve sv (collection p) question top_k),
           conversation_id = cid\<rparr>, p1)"
proof (cases "retrieve sv (collection p) question top_k = []")
  case True
  let ?h = "history_of (memory p) cid"
  obtain e s1 where "chat_create sv (chat_state p) (general_request (llm p) question ?h False) = (Inl e, s1)"
    using primary by (metis general_request_model(1))
  then have first: "chat_attempt (chat_create sv) (chat_state p) (general_request (llm p) question ?h False) = (Inl e, s1)"
    by (rule chat_attempt_fail)
  obtain s2 where "chat_create sv s1 (general_request (llm p) question ?h True) = (Inr (Some ''OK''), s2)"
    using fallback by (metis general_request_model(2))
  then have second: "chat_attempt (chat_create sv) s1 (general_request (llm p) question ?h True) = (Inr ''OK'', s2)"
    by (rule chat_attempt_OK)
  show ?thesis
    using True general_fallback_once [OF first configured] second
    by (simp add: ask_question_general)
next
  case False
  let ?h = "history_of (memory p) cid"
  let ?docs = "retrieve sv (collection p) question top_k"
  obtain e s1 where "chat_create sv (chat_state p) (rag_request (llm p) question ?docs ?h False) = (Inl e, s1)"
    using primary by (metis rag_request_model(1))
  then have first: "chat_attempt (chat_create sv) (chat_state p) (rag_request (llm p) question ?docs ?h False) = (Inl e, s1)"
    by (rule chat_attempt_fail)
  obtain s2 where "chat_create sv s1 (rag_request (llm p) question ?docs ?h True) = (Inr (Some ''OK''), s2)"
    using fallback by (metis rag_request_model(2))
  then have second: "chat_attempt (chat_create sv) s1 (rag_request (llm p) question ?docs ?h True) = (Inr ''OK'', s2)"
    by (rule chat_attempt_OK)
  show ?thesis
    using False rag_fallback_once [OF first] second
    by (simp add: ask_question_rag [OF refl False])
qed

lemma stub_chat_main:
  "chat_attempt stub_chat s (general_request no_fallback_llm q h False)
     = (Inl (Exn OtherError ''primary down''), s)"
  by (simp add: chat_attempt_def stub_chat_def no_fallback_llm_def)






section \<open>Properties of the sources list\<close>

lemma make_source_preview:
  "content_preview (make_source doc) =
     (if length (passage.content doc) \<le> 200 then passage.content doc
      else take 200 (passage.content doc) @ ''...'')"
  by (simp add: make_source_def)

lemma make_source_length: "length (content_preview (make_source doc)) \<le> 203"
  by (simp add: make_source_def)

lemma ask_question_sources:
  assumes "ask_question sv p now question cid top_k = (Inr r, p1)"
  shows "sources r = map make_source (retrieve sv (collection p) question top_k)"
  using assms
  by (auto simp: ask_question_def Let_def split: prod.splits sum.splits if_splits)

lemma long_ask:
  "ask_question long_services stub_pipeline ''now'' ''hi'' None 5 =
     (Inr \<lparr>answer = ''OK'', sources = [make_source long_passage], conversation_id = None\<rparr>,
      stub_pipeline)"
proof -
  have found: "retrieve long_services (collection stub_pipeline) ''hi'' 5 = [long_passage]"
    by (simp add: retrieve_def search_similar_def create_embedding_def long_services_def
        stub_services_def)
  have rag1: "chat_attempt stub_chat () (rag_request stub_llm ''hi'' [long_passage] None False)
     = (Inl (Exn OtherError ''primary down''), ())"
    by (simp add: chat_attempt_def stub_chat_def stub_llm_def)
  have rag2: "chat_attempt stub_chat () (rag_request stub_llm ''hi'' [long_passage] None True)
     = (Inr ''OK'', ())"
    by (rule chat_attempt_OK) (simp add: stub_chat_def stub_llm_def)
  have gen: "generate_response stub_llm stub_chat () ''hi'' [long_passage] None False
     = (Inr ''OK'', (), [rag_request stub_llm ''hi'' [long_passage] None False,
                         rag_request stub_llm ''hi'' [long_passage] None True])"
    using rag_fallback_once [OF rag1] rag2 by simp
  have parts: "llm stub_pipeline = stub_llm" "chat_create long_services = stub_chat"
    "chat_state stub_pipeline = ()" "history_of (memory stub_pipeline) None = None"
    by (simp_all add: stub_pipeline_def long_services_def stub_services_def history_of_def
        truthy_id_def)
  have same: "stub_pipeline\<lparr>memory := memory_after (memory stub_pipeline) ''now'' None ''hi'' ''OK'',
      chat_state := ()\<rparr> = stub_pipeline"
    by (simp add: memory_after_def truthy_id_def stub_pipeline_def)
  show ?thesis
    unfolding ask_question_rag [OF found, simplified] parts gen by (simp add: same)
qed

text \<open>
  C8 as stated: every \<open>content_preview\<close> in the sources that \<open>ask_question\<close> returns has at
  most 200 characters. For a retrieved passage of 201 characters the preview has 203: the
  first 200 characters and the three of the ellipsis.
\<close>

theorem sources_preview_counterexample:
  "(case fst (ask_question long_services stub_pipeline ''now'' ''hi'' None 5) of
      Inl e \<Rightarrow> []
    | Inr r \<Rightarrow> map (\<lambda>entry. length (content_preview entry)) (sources r)) = [203]"
  by (simp add: long_ask make_source_def long_passage_def example_passage_def)

text \<open>
  C8, amended: the sources that \<open>ask_question\<close> returns correspond one to one, in order, to
  the retrieved passages; each holds the passage's source document name (\<open>Unknown\<close> when the
  metadata has none) and a \<open>content_preview\<close> that is the passage's full content when that
  has at most 200 characters, and otherwise its first 200 characters followed by \<open>...\<close>;
  so a preview has at most 203 characters.
\<close>

theorem sources_preview:
  assumes "ask_question sv p now question cid top_k = (Inr r, p1)"
  shows "length (sources r) = length (retrieve sv (collection p) question top_k) \<and>
    (\<forall>i < length (sources r).
       let doc = retrieve sv (collection p) question top_k ! i; entry = sources r ! i in
         source entry = get_source_document doc \<and>
         content_preview entry =
           (if length (passage.content doc) \<le> 200 then passage.content doc
            else take 200 (passage.content doc) @ ''...'') \<and>
         length (content_preview entry) \<le> 203)"
  using ask_question_sources [OF assms]
  by (simp add: Let_def make_source_preview make_source_length) (simp add: make_source_def)

theorem sources_preview_witness:
  "ask_question long_services stub_pipeline ''now'' ''hi'' None 5 =
     (Inr \<lparr>answer = ''OK'', sources = [make_source long_passage], conversation_id = None\<rparr>,
      stub_pipeline) \<and>
   source (make_source long_passage) = MStr ''big.txt'' \<and>
   content_preview (make_source long_passage) = replicate 200 (CHR ''x'') @ ''...'' \<and>
   length (content_preview (make_source long_passage)) \<le> 203"
proof -
  have found: "retrieve long_services (collection stub_pipeline) ''hi'' 5 = [long_passage]"
    by (simp add: retrieve_def search_similar_def create_embedding_def long_services_def
        stub_services_def)
  have body: "passage.content long_passage = replicate 201 (CHR ''x'')"
    and name: "get_source_document long_passage = MStr ''big.txt''"
    by (simp_all add: long_passage_def example_passage_def get_source_document_def)
  show ?thesis
    using sources_preview [OF long_ask] long_ask
    by (simp add: found Let_def body name)
qed

section \<open>Properties of ingestion\<close>

lemma ingest_document_rejected:
  assumes "rejected fsys p"
  shows "\<exists>msg. ingest_document fsys p = Inl (Exn DocumentIngestionError msg)"
  using assms
  by (auto simp: rejected_def ingest_document_def ingest_document_body_def Let_def)

lemma ingest_document_error_class:
  "ingest_document fsys p = Inl e \<Longrightarrow> exn_class_of e = DocumentIngestionError"
  by (auto simp: ingest_document_def split: sum.splits)

lemma ingest_all_rejected:
  assumes "\<exists>p \<in> set file_paths. rejected fsys p"
  shows "\<exists>e. ingest_all fsys file_paths = Inl e \<and> exn_class_of e = DocumentIngestionError"
  using assms
proof (induction file_paths)
  case Nil
  then show ?case by simp
next
  case (Cons p ps)
  show ?case
  proof (cases "ingest_document fsys p")
    case (Inl e)
    then show ?thesis
      by (simp add: ingest_document_error_class)
  next
    case (Inr d)
    then have "\<not> rejected fsys p"
      using ingest_document_rejected [of fsys p] by auto
    with Cons.prems have "\<exists>q \<in> set ps. rejected fsys q"
      by auto
    from Cons.IH [OF this] Inr show ?thesis
      by auto
  qed
qed

text \<open>
  C9: when some file of the batch is missing or has an unsupported extension,
  \<open>ingest_documents\<close> raises and leaves the pipeline, and so the embedding index, as it was:
  all files are read before anything is chunked or written, so the chunks of the files before
  the failing one are not written either.
\<close>

theorem failed_ingest_leaves_index:
  assumes "\<exists>path \<in> set file_paths.
      \<not> path_exists (fs sv) path
      \<or> py_lower (path_suffix (path_name (fs sv) path)) \<notin> supported_extensions"
  shows "\<exists>msg. ingest_documents sv p file_paths = (Inl (Exn ChatbotError msg), p) \<and>
     collection (snd (ingest_documents sv p file_paths)) = collection p"
proof -
  from assms have "\<exists>path \<in> set file_paths. rejected (fs sv) path"
    by (simp add: rejected_def)
  then obtain e where "ingest_all (fs sv) file_paths = Inl e"
    using ingest_all_rejected by blast
  then show ?thesis
    by (simp add: ingest_documents_def)
qed

theorem failed_ingest_leaves_index_witness:
  "(\<exists>path \<in> set [''a.txt'', ''b.md'', ''missing.txt''].
      \<not> path_exists (fs stub_services) path
      \<or> py_lower (path_suffix (path_name (fs stub_services) path)) \<notin> supported_extensions) \<and>
   ingest_documents stub_services stub_pipeline [''a.txt'', ''b.md'', ''missing.txt'']
     = (Inl (Exn ChatbotError
          ''Document ingestion failed: Failed to ingest document: Unsupported file type: .md''),
        stub_pipeline)"
proof -
  have bad: "\<exists>path \<in> set [''a.txt'', ''b.md'', ''missing.txt''].
      \<not> path_exists (fs stub_services) path
      \<or> py_lower (path_suffix (path_name (fs stub_services) path)) \<notin> supported_extensions"
    by (simp add: stub_services_def stub_fs_def)
  have first: "ingest_document stub_fs ''a.txt'' =
      Inr \<lparr>file_path = ''a.txt'', file_name = ''a.txt'', content = ''A.  B. C.'', file_size = 9,
           extension = ''.txt''\<rparr>"
    by (simp add: ingest_document_def ingest_document_body_def stub_fs_def path_suffix_def
        py_lower_def py_lower_char_def supported_extensions_def extract_txt_text_def
        py_strip_def is_space_def Let_def)
  have second: "ingest_document stub_fs ''b.md'' =
      Inl (Exn DocumentIngestionError ''Failed to ingest document: Unsupported file type: .md'')"
    by (simp add: ingest_document_def ingest_document_body_def stub_fs_def path_suffix_def
        py_lower_def py_lower_char_def supported_extensions_def Let_def)
  have "ingest_documents stub_services stub_pipeline [''a.txt'', ''b.md'', ''missing.txt'']
     = (Inl (Exn ChatbotError
          ''Document ingestion failed: Failed to ingest document: Unsupported file type: .md''),
        stub_pipeline)"
    using first second by (simp add: ingest_documents_def stub_services_def)
  with bad failed_ingest_leaves_index [OF bad, of stub_pipeline] show ?thesis
    by simp
qed


section \<open>Properties of re-ingestion\<close>

lemma foldl_upd_map_add:
  "foldl (\<lambda>m (k, e). m(k \<mapsto> e)) m rows = m ++ map_of (rev rows)"
proof (induction rows arbitrary: m)
  case Nil
  show ?case by simp
next
  case (Cons row rows)
  obtain k e where row: "row = (k, e)" by (cases row)
  have "foldl (\<lambda>m (k, e). m(k \<mapsto> e)) m (row # rows)
      = foldl (\<lambda>m (k, e). m(k \<mapsto> e)) (m(k \<mapsto> e)) rows"
    by (simp only: row foldl_Cons prod.case)
  also have "\<dots> = m(k \<mapsto> e) ++ map_of (rev rows)"
    by (rule Cons.IH)
  also have "\<dots> = m ++ map_of (rev (row # rows))"
    by (auto simp: row fun_eq_iff map_add_def split: option.splits)
  finally show ?case .
qed

lemma map_add_twice: "(m ++ f) ++ f = m ++ f"
  by (auto simp: fun_eq_iff map_add_def split: option.splits)

lemma spec_upsert_twice:
  assumes "spec_upsert coll rows = Inr coll1"
  shows "spec_upsert coll1 rows = Inr coll1"
proof -
  from assms have "coll1 = coll ++ map_of (rev rows)"
    by (simp add: spec_upsert_def foldl_upd_map_add)
  then show ?thesis
    by (simp add: spec_upsert_def foldl_upd_map_add map_add_twice)
qed

lemma spec_upsert_dom:
  assumes "spec_upsert coll rows = Inr coll1"
  shows "dom coll1 = dom coll \<union> fst ` set rows"
proof -
  from assms have "coll1 = coll ++ map_of (rev rows)"
    by (simp add: spec_upsert_def foldl_upd_map_add)
  then show ?thesis
    by (simp add: dom_map_of_conv_image_fst Un_commute)
qed

lemma embed_chunks_ids:
  "embed_chunks enc chunks = Inr rows \<Longrightarrow> map fst rows = map chunk_id chunks"
  by (induction chunks arbitrary: rows) (auto split: sum.splits)

lemma add_documents_twice:
  assumes "add_documents enc spec_upsert coll chunks = (Inr (), coll1)"
  shows "add_documents enc spec_upsert coll1 chunks = (Inr (), coll1)"
  using assms
  by (auto simp: add_documents_def spec_upsert_twice split: sum.splits)

lemma add_documents_dom:
  assumes "add_documents enc spec_upsert coll chunks = (Inr (), coll1)"
  shows "dom coll1 = dom coll \<union> chunk_id ` set chunks"
proof -
  from assms obtain rows where rows: "embed_chunks enc chunks = Inr rows"
    and up: "spec_upsert coll rows = Inr coll1"
    by (auto simp: add_documents_def split: sum.splits)
  have "fst ` set rows = set (map fst rows)" by simp
  also have "\<dots> = chunk_id ` set chunks"
    using embed_chunks_ids [OF rows] by simp
  finally show ?thesis
    using spec_upsert_dom [OF up] by simp
qed

lemma chunk_loop_ids:
  "map chunk_id (chunk_loop d i cs) =
     map (\<lambda>k. file_name d @ ''_chunk_'' @ str_nat (i + k)) [0..<length cs]"
proof (induction cs arbitrary: i)
  case Nil
  show ?case by simp
next
  case (Cons c cs)
  have "map (\<lambda>k. file_name d @ ''_chunk_'' @ str_nat (i + k)) [0..<length (c # cs)]
      = (file_name d @ ''_chunk_'' @ str_nat i)
        # map (\<lambda>k. file_name d @ ''_chunk_'' @ str_nat (Suc i + k)) [0..<length cs]"
    by (simp add: map_upt_Suc del: upt_Suc)
  with Cons.IH [of "Suc i"] show ?case
    by simp
qed

lemma chunk_loop_length: "length (chunk_loop d i cs) = length cs"
  by (induction cs arbitrary: i) simp_all

lemma chunk_document_ids:
  "map chunk_id (chunk_document split d) =
     map (\<lambda>i. file_name d @ ''_chunk_'' @ str_nat i) [0..<length (chunk_document split d)]"
  by (simp add: chunk_document_def chunk_loop_ids chunk_loop_length Let_def split: sum.splits)

lemma ingest_documents_success:
  assumes "ingest_documents sv p file_paths = (Inr (), p1)"
  shows "\<exists>documents coll1. ingest_all (fs sv) file_paths = Inr documents \<and>
     add_documents (encode sv) (collection_add sv) (collection p)
        (process_documents (split_text sv) documents) = (Inr (), coll1) \<and>
     p1 = p\<lparr>collection := coll1\<rparr>"
  using assms
  by (auto simp: ingest_documents_def Let_def split: sum.splits prod.splits)

text \<open>
  C4: the chunk ids of a document are \<open>file_name_chunk_0\<close>, \<open>file_name_chunk_1\<close>, ... in
  order, so the same document gives the same ids; and with an index whose write replaces the
  entry of an id that is already present, a second ingestion of the same files succeeds and
  leaves the pipeline, and so the index, exactly as the first ingestion left it. The ids in the
  index after an ingestion are those it held before and those of the chunks.
\<close>

theorem reingest_idempotent:
  assumes "collection_add sv = spec_upsert"
    and "ingest_documents sv p file_paths = (Inr (), p1)"
  shows "ingest_documents sv p1 file_paths = (Inr (), p1) \<and>
    (\<exists>documents. ingest_all (fs sv) file_paths = Inr documents \<and>
       dom (collection p1) =
         dom (collection p) \<union> chunk_id ` set (process_documents (split_text sv) documents)) \<and>
    (\<forall>d. map chunk_id (chunk_document (split_text sv) d) =
       map (\<lambda>i. file_name d @ ''_chunk_'' @ str_nat i)
         [0..<length (chunk_document (split_text sv) d)])"
proof -
  from ingest_documents_success [OF assms(2)] obtain documents coll1 where
    docs: "ingest_all (fs sv) file_paths = Inr documents" and
    added: "add_documents (encode sv) spec_upsert (collection p)
        (process_documents (split_text sv) documents) = (Inr (), coll1)" and
    p1: "p1 = p\<lparr>collection := coll1\<rparr>"
    using assms(1) by auto
  have again: "ingest_documents sv p1 file_paths = (Inr (), p1)"
    using docs add_documents_twice [OF added] assms(1) p1
    by (simp add: ingest_documents_def)
  have "dom (collection p1) =
      dom (collection p) \<union> chunk_id ` set (process_documents (split_text sv) documents)"
    using add_documents_dom [OF added] p1 by simp
  with again docs chunk_document_ids show ?thesis
    by blast
qed


lemma clean_text_example: "clean_text ''A.  B. C.'' = ''A. B. C.''"
  by (simp add: clean_text_def allowed_char_def is_space_def is_word_def py_strip_def Let_def)

lemma ingest_a_txt:
  "ingest_document stub_fs ''a.txt'' =
      Inr \<lparr>file_path = ''a.txt'', file_name = ''a.txt'', content = ''A.  B. C.'', file_size = 9,
           extension = ''.txt''\<rparr>"
  by (simp add: ingest_document_def ingest_document_body_def stub_fs_def path_suffix_def
      py_lower_def py_lower_char_def supported_extensions_def extract_txt_text_def
      py_strip_def is_space_def Let_def)

lemma chunks_a_txt:
  "chunk_document (spec_split_text (\<lambda>t. [t]) 1000)
       \<lparr>file_path = ''a.txt'', file_name = ''a.txt'', content = ''A.  B. C.'', file_size = 9,
        extension = ''.txt''\<rparr>
     = [\<lparr>chunk_id = ''a.txt_chunk_0'', source_document = ''a.txt'', source_path = ''a.txt'',
         chunk_index = 0, content = ''A. B. C.'', chunk_size = 8\<rparr>]"
  by (simp add: chunk_document_def clean_text_example spec_split_text_def digit_char_def)

lemma first_ingest:
  "ingest_documents stub_services stub_pipeline [''a.txt''] = (Inr (), ingested_once)"
proof -
  have "add_documents (\<lambda>t. Inr [0]) spec_upsert Map.empty
       [\<lparr>chunk_id = ''a.txt_chunk_0'', source_document = ''a.txt'', source_path = ''a.txt'',
         chunk_index = 0, content = ''A. B. C.'', chunk_size = 8\<rparr>]
     = (Inr (), [''a.txt_chunk_0'' \<mapsto> stub_entry])"
    by (simp add: add_documents_def create_embedding_def spec_upsert_def stub_entry_def)
  then show ?thesis
    by (simp add: ingest_documents_def stub_services_def ingest_a_txt process_documents_def
        chunks_a_txt stub_pipeline_def ingested_once_def)
qed

theorem reingest_idempotent_witness:
  "collection_add stub_services = spec_upsert \<and>
   ingest_documents stub_services stub_pipeline [''a.txt''] = (Inr (), ingested_once) \<and>
   ingest_documents stub_services ingested_once [''a.txt''] = (Inr (), ingested_once) \<and>
   dom (collection ingested_once) = {''a.txt_chunk_0''}"
proof -
  have upsert: "collection_add stub_services = spec_upsert"
    by (simp add: stub_services_def)
  have "dom (collection ingested_once) = {''a.txt_chunk_0''}"
    by (simp add: ingested_once_def)
  with upsert first_ingest reingest_idempotent [OF upsert first_ingest, THEN conjunct1]
  show ?thesis by simp
qed


section \<open>Properties of cleaning and chunking\<close>

lemma sub_whitespace_spaces:
  "c \<in> set (sub_whitespace t) \<Longrightarrow> is_space c \<Longrightarrow> c = CHR '' ''"
  by (induction t rule: sub_whitespace.induct) (auto split: if_splits)

lemma filter_dropWhile_not:
  "filter (\<lambda>c. \<not> P c) (dropWhile P xs) = filter (\<lambda>c. \<not> P c) xs"
  by (induction xs) simp_all

lemma is_space_blank: "is_space (CHR '' '')"
  by (simp add: is_space_def)

lemma sub_whitespace_keeps:
  "filter (\<lambda>c. \<not> is_space c) (sub_whitespace t) = filter (\<lambda>c. \<not> is_space c) t"
  by (induction t rule: sub_whitespace.induct) (simp_all add: filter_dropWhile_not is_space_blank)

lemma filter_allowed_swap:
  "filter (\<lambda>c. \<not> is_space c) (filter allowed_char ys)
     = filter allowed_char (filter (\<lambda>c. \<not> is_space c) ys)"
  by (induction ys) simp_all

lemma filter_allowed_both:
  "filter allowed_char (filter (\<lambda>c. \<not> is_space c) ys)
     = filter (\<lambda>c. allowed_char c \<and> \<not> is_space c) ys"
  by (induction ys) simp_all

lemma py_strip_subset: "set (py_strip s) \<subseteq> set s"
proof -
  have "set (dropWhile is_space (rev (dropWhile is_space s))) \<subseteq> set (rev (dropWhile is_space s))"
    by (auto dest: set_dropWhileD)
  also have "\<dots> \<subseteq> set s"
    by (auto dest: set_dropWhileD)
  finally show ?thesis
    by (simp add: py_strip_def)
qed

lemma py_strip_keeps:
  "filter (\<lambda>c. \<not> is_space c) (py_strip s) = filter (\<lambda>c. \<not> is_space c) s"
proof -
  have "filter (\<lambda>c. \<not> is_space c) (py_strip s)
      = rev (filter (\<lambda>c. \<not> is_space c) (dropWhile is_space (rev (dropWhile is_space s))))"
    by (simp add: py_strip_def rev_filter)
  also have "\<dots> = rev (filter (\<lambda>c. \<not> is_space c) (rev (dropWhile is_space s)))"
    by (simp only: filter_dropWhile_not)
  also have "\<dots> = filter (\<lambda>c. \<not> is_space c) (dropWhile is_space s)"
    by (simp add: rev_filter)
  also have "\<dots> = filter (\<lambda>c. \<not> is_space c) s"
    by (rule filter_dropWhile_not)
  finally show ?thesis .
qed

lemma clean_text_allowed: "c \<in> set (clean_text t) \<Longrightarrow> allowed_char c"
  using py_strip_subset [of "filter allowed_char (sub_whitespace t)"]
  by (auto simp: clean_text_def Let_def)

lemma clean_text_spaces: "c \<in> set (clean_text t) \<Longrightarrow> is_space c \<Longrightarrow> c = CHR '' ''"
  using py_strip_subset [of "filter allowed_char (sub_whitespace t)"]
  by (auto simp: clean_text_def Let_def dest: sub_whitespace_spaces)

lemma clean_text_keeps:
  "filter (\<lambda>c. \<not> is_space c) (clean_text t) = filter (\<lambda>c. allowed_char c \<and> \<not> is_space c) t"
proof -
  have "filter (\<lambda>c. \<not> is_space c) (clean_text t)
      = filter (\<lambda>c. \<not> is_space c) (filter allowed_char (sub_whitespace t))"
    by (simp add: clean_text_def Let_def py_strip_keeps)
  also have "\<dots> = filter allowed_char (filter (\<lambda>c. \<not> is_space c) (sub_whitespace t))"
    by (rule filter_allowed_swap)
  also have "\<dots> = filter allowed_char (filter (\<lambda>c. \<not> is_space c) t)"
    by (simp only: sub_whitespace_keeps)
  also have "\<dots> = filter (\<lambda>c. allowed_char c \<and> \<not> is_space c) t"
    by (rule filter_allowed_both)
  finally show ?thesis .
qed

lemma strip_ends:
  assumes "py_strip s \<noteq> []"
  shows "\<not> is_space (hd (py_strip s)) \<and> \<not> is_space (last (py_strip s))"
proof -
  let ?a = "dropWhile is_space s"
  let ?b = "dropWhile is_space (rev ?a)"
  from assms have b: "?b \<noteq> []" by (simp add: py_strip_def)
  then have "\<not> is_space (hd ?b)" by (rule hd_dropWhile)
  then have last: "\<not> is_space (last (py_strip s))"
    using b by (simp add: py_strip_def last_rev)
  have a: "?a \<noteq> []"
  proof
    assume "?a = []"
    then have "?b = []" by (simp only: rev.simps dropWhile.simps)
    with b show False by simp
  qed
  then have ha: "\<not> is_space (hd ?a)" by (rule hd_dropWhile)
  have "hd (rev ?b) = hd ?a"
  proof -
    obtain x xs where ax: "?a = x # xs" using a by (cases ?a) auto
    with ha have "\<not> is_space x" by simp
    then have "\<exists>ys. ?b = ys @ [x]"
      unfolding ax by (simp add: dropWhile_append)
    then obtain ys where "?b = ys @ [x]" ..
    then show ?thesis using ax by simp
  qed
  with ha have "\<not> is_space (hd (py_strip s))"
    by (simp add: py_strip_def)
  with last show ?thesis by simp
qed

lemma clean_text_ends:
  "clean_text t \<noteq> [] \<Longrightarrow> \<not> is_space (hd (clean_text t)) \<and> \<not> is_space (last (clean_text t))"
  unfolding clean_text_def Let_def by (rule strip_ends)

lemma clean_text_gap: "clean_text ''a @ b'' = ''a  b''"
  by (simp add: clean_text_def allowed_char_def is_space_def is_word_def py_strip_def Let_def)

lemma short_chunk:
  assumes "clean_text (document.content d) \<noteq> []"
    and "length (clean_text (document.content d)) \<le> size_limit"
  shows "chunk_document (spec_split_text split_long size_limit) d =
     [\<lparr>chunk_id = file_name d @ ''_chunk_0'',
       source_document = file_name d,
       source_path = file_path d,
       chunk_index = 0,
       content = clean_text (document.content d),
       chunk_size = length (clean_text (document.content d))\<rparr>]"
  using assms
  by (simp add: chunk_document_def spec_split_text_def Let_def digit_char_def)





end
